theory Spec2Isabelle
  imports Main "HOL-Library.Sublist"
begin

section \<open>JavaScript values and string primitives used by the server\<close>

text \<open>
  The server is the class \<open>StaticServer\<close> of \<open>lib/static-server.js\<close>. Strings that
  come from request headers are Latin-1 decoded by Node, one \<^typ>\<open>char\<close> per code
  unit. A JavaScript number that the server computes with is either \<open>NaN\<close> or an
  integer; integers are taken exactly (a double is exact below \<open>2^53\<close>, which
  covers every file size and time stamp a file system reports).
\<close>

datatype jsnum = NaN | Num int

fun isNaN :: "jsnum \<Rightarrow> bool" where
  "isNaN NaN = True"
| "isNaN (Num _) = False"

text \<open>\<open>a - b\<close> and \<open>a + b\<close>: \<open>NaN\<close> is absorbing.\<close>

fun js_minus :: "jsnum \<Rightarrow> jsnum \<Rightarrow> jsnum" where
  "js_minus (Num a) (Num b) = Num (a - b)"
| "js_minus _ _ = NaN"

fun js_plus :: "jsnum \<Rightarrow> jsnum \<Rightarrow> jsnum" where
  "js_plus (Num a) (Num b) = Num (a + b)"
| "js_plus _ _ = NaN"

text \<open>\<open>a >= b\<close>: every comparison with \<open>NaN\<close> is false.\<close>

fun js_ge :: "jsnum \<Rightarrow> jsnum \<Rightarrow> bool" where
  "js_ge (Num a) (Num b) = (b \<le> a)"
| "js_ge _ _ = False"

text \<open>Decimal digits.\<close>

definition isDigit :: "char \<Rightarrow> bool" where
  "isDigit c = (48 \<le> (of_char c :: nat) \<and> (of_char c :: nat) \<le> 57)"

definition digitVal :: "char \<Rightarrow> nat" where
  "digitVal c = (of_char c :: nat) - 48"

definition digitChar :: "nat \<Rightarrow> char" where
  "digitChar d = char_of (48 + d)"

definition digitsVal :: "string \<Rightarrow> nat" where
  "digitsVal ds = foldl (\<lambda>a c. 10 * a + digitVal c) 0 ds"

text \<open>
  The white space that \<open>parseInt\<close> skips, among the code units a header value can
  hold: TAB, LF, VT, FF, CR, SPACE and NBSP.
\<close>

definition isWhiteSpace :: "char \<Rightarrow> bool" where
  "isWhiteSpace c = ((of_char c :: nat) \<in> {9, 10, 11, 12, 13, 32, 160})"

text \<open>
  \<open>parseInt(s, 10)\<close>: skip leading white space, read an optional sign, then the
  longest run of decimal digits; no digit gives \<open>NaN\<close>.
\<close>

definition parseInt :: "string \<Rightarrow> jsnum" where
  "parseInt s =
     (let S = dropWhile isWhiteSpace s;
          neg = (case S of [] \<Rightarrow> False | c # _ \<Rightarrow> c = CHR ''-'');
          S' = (case S of [] \<Rightarrow> [] | c # r \<Rightarrow> if c = CHR ''+'' \<or> c = CHR ''-'' then r else S);
          Z = takeWhile isDigit S'
      in if Z = [] then NaN
         else Num (if neg then - int (digitsVal Z) else int (digitsVal Z)))"

text \<open>\<open>String(n)\<close> and template interpolation of a number.\<close>

function decimal :: "nat \<Rightarrow> string" where
  "decimal n = (if n < 10 then [digitChar n] else decimal (n div 10) @ [digitChar (n mod 10)])"
  by pat_completeness auto
termination
  by (relation "measure id") auto

declare decimal.simps [simp del]

fun js_String :: "jsnum \<Rightarrow> string" where
  "js_String NaN = ''NaN''"
| "js_String (Num i) = (if i < 0 then CHR ''-'' # decimal (nat (- i)) else decimal (nat i))"

text \<open>\<open>s.split(sep)\<close> for a one-character separator: never the empty array.\<close>

fun split :: "char \<Rightarrow> string \<Rightarrow> string list" where
  "split sep [] = [[]]"
| "split sep (c # cs) =
     (if c = sep then [] # split sep cs
      else (case split sep cs of [] \<Rightarrow> [[c]] | p # ps \<Rightarrow> (c # p) # ps))"

text \<open>\<open>s.startsWith(p)\<close> and \<open>s.includes(p)\<close>.\<close>

definition startsWith :: "string \<Rightarrow> string \<Rightarrow> bool" where
  "startsWith s p = prefix p s"

fun includes_str :: "string \<Rightarrow> string \<Rightarrow> bool" where
  "includes_str [] p = (p = [])"
| "includes_str (c # cs) p = (prefix p (c # cs) \<or> includes_str cs p)"

text \<open>
  \<open>s.replace(/pat/, rep)\<close> for a pattern without meta-characters and without the
  \<open>g\<close> flag: the first occurrence is replaced, a string without one is unchanged.
\<close>

fun replace :: "string \<Rightarrow> string \<Rightarrow> string \<Rightarrow> string" where
  "replace pat rep [] = (if pat = [] then rep else [])"
| "replace pat rep (c # cs) =
     (if prefix pat (c # cs) then rep @ drop (length pat) (c # cs)
      else c # replace pat rep cs)"

text \<open>\<open>s.toLowerCase()\<close> on the ASCII letters; every other code unit is kept.\<close>

definition lowerChar :: "char \<Rightarrow> char" where
  "lowerChar c =
     (if 65 \<le> (of_char c :: nat) \<and> (of_char c :: nat) \<le> 90 then char_of ((of_char c :: nat) + 32)
      else c)"

definition toLowerCase :: "string \<Rightarrow> string" where
  "toLowerCase s = map lowerChar s"

section \<open>Range parsing\<close>

record range =
  start :: jsnum
  end_incl :: jsnum

text \<open>
  \<open>parts[i]\<close> converted to a string as \<open>parseInt\<close> does: an index past the end is
  \<open>undefined\<close>, which converts to the string \<open>undefined\<close>.
\<close>

definition part :: "string list \<Rightarrow> nat \<Rightarrow> string" where
  "part parts i = (if i < length parts then parts ! i else ''undefined'')"

definition parseRange :: "string \<Rightarrow> int \<Rightarrow> range option" where
  "parseRange rng size_b =
     (let parts = split (CHR ''-'') (replace ''bytes='' '''' rng);
          start0 = parseInt (part parts 0);
          end0 = parseInt (part parts 1);
          (start1, end1) =
            (if isNaN start0 then (js_minus (Num size_b) end0, js_minus (Num size_b) (Num 1))
             else if isNaN end0 then (start0, js_minus (Num size_b) (Num 1))
             else (start0, end0))
      in if js_ge start1 (Num size_b) \<or> js_ge end1 (Num size_b) then None
         else Some \<lparr>start = start1, end_incl = end1\<rparr>)"

section \<open>Paths (the POSIX variant of Node's \<open>path\<close> module)\<close>

text \<open>
  A path is a string of bytes; a character outside ASCII is its UTF-8 bytes. The
  separator is \<open>/\<close>.
\<close>

fun joinWith :: "string \<Rightarrow> string list \<Rightarrow> string" where
  "joinWith sep [] = []"
| "joinWith sep [x] = x"
| "joinWith sep (x # y # ys) = x @ sep @ joinWith sep (y # ys)"

text \<open>
  The segments of a path with \<open>.\<close> and empty segments dropped and \<open>..\<close> resolved
  against the segment before it. \<open>acc\<close> holds the segments kept so far, last first. A
  \<open>..\<close> with nothing to remove is kept only when the path is relative
  (\<open>allowAboveRoot\<close>).
\<close>

fun normalizeSegments :: "bool \<Rightarrow> string list \<Rightarrow> string list \<Rightarrow> string list" where
  "normalizeSegments allowAboveRoot acc [] = rev acc"
| "normalizeSegments allowAboveRoot acc (s # ss) =
     (if s = [] \<or> s = ''.'' then normalizeSegments allowAboveRoot acc ss
      else if s = ''..'' then
        (case acc of
           t # acc' \<Rightarrow>
             if t \<noteq> ''..'' then normalizeSegments allowAboveRoot acc' ss
             else if allowAboveRoot then normalizeSegments allowAboveRoot (''..'' # acc) ss
             else normalizeSegments allowAboveRoot acc ss
         | [] \<Rightarrow>
             if allowAboveRoot then normalizeSegments allowAboveRoot [''..''] ss
             else normalizeSegments allowAboveRoot [] ss)
      else normalizeSegments allowAboveRoot (s # acc) ss)"

definition path_normalize :: "string \<Rightarrow> string" where
  "path_normalize path =
     (if path = [] then ''.''
      else
        let isAbsolute = (hd path = CHR ''/'');
            trailingSeparator = (last path = CHR ''/'');
            p = joinWith ''/'' (normalizeSegments (\<not> isAbsolute) [] (split (CHR ''/'') path))
        in if p = [] then (if isAbsolute then ''/'' else if trailingSeparator then ''./'' else ''.'')
           else
             let p' = (if trailingSeparator then p @ ''/'' else p)
             in if isAbsolute then CHR ''/'' # p' else p')"

definition path_join :: "string list \<Rightarrow> string" where
  "path_join args =
     (let parts = filter (\<lambda>a. a \<noteq> []) args
      in if parts = [] then ''.'' else path_normalize (joinWith ''/'' parts))"

text \<open>
  \<open>path.extname\<close>: the part of the last segment (trailing separators apart) from its
  last dot on; empty when that segment has no dot, when its only dot is its first
  character, and when the segment is \<open>..\<close>.
\<close>

definition path_extname :: "string \<Rightarrow> string" where
  "path_extname path =
     (let trimmed = rev (dropWhile (\<lambda>c. c = CHR ''/'') (rev path));
          base = rev (takeWhile (\<lambda>c. c \<noteq> CHR ''/'') (rev trimmed));
          ext = CHR ''.'' # rev (takeWhile (\<lambda>c. c \<noteq> CHR ''.'') (rev base))
      in if CHR ''.'' \<notin> set base then []
         else if length ext = length base \<or> base = ''..'' then []
         else ext)"

section \<open>Errors and \<open>decodeURIComponent\<close>\<close>

text \<open>
  What the code can throw: a file-system error with its \<open>code\<close>, the \<open>TypeError\<close> of
  \<open>new URL\<close> on an unparsable URL (and of a method call on \<open>undefined\<close>), and the
  \<open>URIError\<close> of \<open>decodeURIComponent\<close>.
\<close>

datatype error = SystemError string | TypeError | URIError

fun err_code :: "error \<Rightarrow> string option" where
  "err_code (SystemError c) = Some c"
| "err_code _ = None"

definition hexVal :: "char \<Rightarrow> nat option" where
  "hexVal c =
     (let n = (of_char c :: nat)
      in if 48 \<le> n \<and> n \<le> 57 then Some (n - 48)
         else if 65 \<le> n \<and> n \<le> 70 then Some (n - 55)
         else if 97 \<le> n \<and> n \<le> 102 then Some (n - 87)
         else None)"

text \<open>One escape \<open>%XX\<close> at the head of the string: its value and the rest.\<close>

fun hexOctet :: "string \<Rightarrow> (nat \<times> string) option" where
  "hexOctet (p # a # b # rest) =
     (if p = CHR ''%'' then
        (case (hexVal a, hexVal b) of
           (Some x, Some y) \<Rightarrow> Some (16 * x + y, rest)
         | _ \<Rightarrow> None)
      else None)"
| "hexOctet _ = None"

fun hexOctets :: "nat \<Rightarrow> string \<Rightarrow> (nat list \<times> string) option" where
  "hexOctets 0 s = Some ([], s)"
| "hexOctets (Suc n) s =
     (case hexOctet s of
        None \<Rightarrow> None
      | Some (b, r) \<Rightarrow>
          (case hexOctets n r of None \<Rightarrow> None | Some (bs, r') \<Rightarrow> Some (b # bs, r')))"

text \<open>The number of leading one bits of an octet (5 stands for five or more).\<close>

definition leadingOnes :: "nat \<Rightarrow> nat" where
  "leadingOnes b =
     (if b < 128 then 0 else if b < 192 then 1 else if b < 224 then 2
      else if b < 240 then 3 else if b < 248 then 4 else 5)"

definition isCont :: "nat \<Rightarrow> bool" where
  "isCont b = (128 \<le> b \<and> b \<le> 191)"

text \<open>The well-formed UTF-8 encodings of one code point.\<close>

fun utf8Valid :: "nat list \<Rightarrow> bool" where
  "utf8Valid [b0, b1] = (194 \<le> b0 \<and> b0 \<le> 223 \<and> isCont b1)"
| "utf8Valid [b0, b1, b2] =
     (isCont b2 \<and>
      (if b0 = 224 then 160 \<le> b1 \<and> b1 \<le> 191
       else if b0 = 237 then 128 \<le> b1 \<and> b1 \<le> 159
       else 225 \<le> b0 \<and> b0 \<le> 239 \<and> isCont b1))"
| "utf8Valid [b0, b1, b2, b3] =
     (isCont b2 \<and> isCont b3 \<and>
      (if b0 = 240 then 144 \<le> b1 \<and> b1 \<le> 191
       else if b0 = 244 then 128 \<le> b1 \<and> b1 \<le> 143
       else 241 \<le> b0 \<and> b0 \<le> 243 \<and> isCont b1))"
| "utf8Valid _ = False"

lemma hexOctet_shorter: "hexOctet s = Some (b, r) \<Longrightarrow> length r < length s"
  by (induction s rule: hexOctet.induct) (auto split: if_splits option.splits)

lemma hexOctets_shorter: "hexOctets n s = Some (bs, r) \<Longrightarrow> length r \<le> length s"
proof (induction n arbitrary: s bs r)
  case 0
  then show ?case by simp
next
  case (Suc n)
  then obtain b r0 bs0 where h: "hexOctet s = Some (b, r0)" and t: "hexOctets n r0 = Some (bs0, r)"
    by (auto split: option.splits)
  from Suc.IH [OF t] hexOctet_shorter [OF h] show ?case by simp
qed

text \<open>
  \<open>decodeURIComponent\<close>: every escape \<open>%XX\<close> is replaced by the character it
  encodes; an escape at or above \<open>0x80\<close> starts a UTF-8 sequence of escapes, which
  must be well formed. Anything else throws \<open>URIError\<close>.
\<close>

function decodeURIComponent :: "string \<Rightarrow> error + string" where
  "decodeURIComponent [] = Inr []"
| "decodeURIComponent (c # cs) =
     (if c \<noteq> CHR ''%'' then
        (case decodeURIComponent cs of Inl e \<Rightarrow> Inl e | Inr d \<Rightarrow> Inr (c # d))
      else
        (case hexOctet (c # cs) of
           None \<Rightarrow> Inl URIError
         | Some (B, r) \<Rightarrow>
             if leadingOnes B = 0 then
               (case decodeURIComponent r of Inl e \<Rightarrow> Inl e | Inr d \<Rightarrow> Inr (char_of B # d))
             else if leadingOnes B = 1 \<or> leadingOnes B > 4 then Inl URIError
             else
               (case hexOctets (leadingOnes B - 1) r of
                  None \<Rightarrow> Inl URIError
                | Some (bs, r') \<Rightarrow>
                    if utf8Valid (B # bs) then
                      (case decodeURIComponent r' of
                         Inl e \<Rightarrow> Inl e
                       | Inr d \<Rightarrow> Inr (map char_of (B # bs) @ d))
                    else Inl URIError)))"
  by pat_completeness auto
termination
proof (relation "measure length")
  show "wf (measure length)" by simp
next
  fix c :: char and cs :: string
  show "(cs, c # cs) \<in> measure length" by simp
next
  fix c :: char and cs :: string and x2 B r
  assume "hexOctet (c # cs) = Some x2" "(B, r) = x2"
  then have "length r < length (c # cs)" using hexOctet_shorter [of "c # cs" B r] by simp
  then show "(r, c # cs) \<in> measure length" by simp
next
  fix c :: char and cs :: string and x2 B r x2a bs r'
  assume "hexOctet (c # cs) = Some x2" "(B, r) = x2"
    and "hexOctets (leadingOnes B - 1) r = Some x2a" "(bs, r') = x2a"
  then have "length r < length (c # cs)" "length r' \<le> length r"
    using hexOctet_shorter [of "c # cs" B r] hexOctets_shorter [of "leadingOnes B - 1" r bs r']
    by simp_all
  then show "(r', c # cs) \<in> measure length" by simp
qed

section \<open>The server's collaborators\<close>

text \<open>
  The libraries the server calls and whose code is not its own are parameters:
  \<open>new URL(url, base).pathname\<close> (which throws on an unparsable URL),
  the hex MD5 digest of \<open>crypto\<close>, \<open>mime.getType\<close> and \<open>Date.toUTCString\<close> (applied to
  the time stamp in epoch milliseconds).
\<close>

record library =
  url_pathname :: "string \<Rightarrow> string \<Rightarrow> error + string"
  md5_hex :: "string \<Rightarrow> string"
  mime_getType :: "string \<Rightarrow> string option"
  toUTCString :: "int \<Rightarrow> string"

text \<open>
  \<open>fs.Stats\<close> as far as the server reads it: the size in bytes, the modification
  time in epoch milliseconds (\<open>mtime.getTime()\<close>) and \<open>isDirectory()\<close>.
\<close>

record stats =
  size_st :: int
  mtime :: int
  isDirectory :: bool

text \<open>
  The file system as one request observes it: \<open>fsp.stat\<close>, \<open>fsp.readFile\<close> and
  \<open>fsp.readdir\<close>, each returning its value or the error it throws.
\<close>

record filesystem =
  fs_stat :: "string \<Rightarrow> error + stats"
  fs_readFile :: "string \<Rightarrow> error + string"
  fs_readdir :: "string \<Rightarrow> error + string list"

record config =
  port :: int
  root :: string
  index :: string

text \<open>
  A request: \<open>req.url\<close> and \<open>req.headers\<close>, the header names in lower case as Node
  delivers them; a header that is not set is \<open>undefined\<close>.
\<close>

record request =
  url :: "string option"
  headers :: "string \<rightharpoonup> string"

text \<open>
  The headers object of a response: the properties in insertion order. An assignment
  \<open>headers[k] = v\<close> overwrites an existing property in place and appends a new one.
\<close>

type_synonym header_list = "(string \<times> string) list"

fun assign :: "string \<Rightarrow> string \<Rightarrow> header_list \<Rightarrow> header_list" where
  "assign k v [] = [(k, v)]"
| "assign k v ((k', v') # hs) = (if k' = k then (k, v) # hs else (k', v') # assign k v hs)"

text \<open>
  What the handler writes to \<open>res\<close>: the status and the headers given to
  \<open>res.writeHead\<close> at the moment of the call, and the body: \<open>res.end()\<close>,
  \<open>res.end(text)\<close>, or a read stream of a file (whole, or the bytes \<open>start\<close> to
  \<open>end\<close>) piped to \<open>res\<close>, directly or through \<open>zlib.createGzip()\<close>. The range is the
  one handed to \<open>fs.createReadStream\<close>.
\<close>

datatype read_stream = ReadStream string "range option"

datatype body = EndEmpty | EndText string | Pipe read_stream | PipeGzip read_stream

record response =
  status :: nat
  head :: header_list
  body :: body

section \<open>The methods of \<open>StaticServer\<close>\<close>

definition getPathStats :: "filesystem \<Rightarrow> string \<Rightarrow> error + stats option" where
  "getPathStats fs requestPath =
     (case fs_stat fs requestPath of
        Inr st \<Rightarrow> Inr (Some st)
      | Inl err \<Rightarrow> if err_code err = Some ''ENOENT'' then Inr None else Inl err)"

definition getRequestPath :: "config \<Rightarrow> library \<Rightarrow> request \<Rightarrow> error + string option" where
  "getRequestPath cfg lib req =
     (case (url req, headers req ''host'') of
        (Some u, Some host) \<Rightarrow>
          if u = [] \<or> host = [] then Inr None
          else
            (case url_pathname lib u (''http://'' @ host) of
               Inl e \<Rightarrow> Inl e
             | Inr pathname \<Rightarrow>
                 (case decodeURIComponent pathname of
                    Inl e \<Rightarrow> Inl e
                  | Inr decoded \<Rightarrow>
                      let requestPath = path_join [root cfg, decoded];
                          requestPath = path_normalize requestPath
                      in Inr (if startsWith requestPath (root cfg) then Some requestPath else None)))
      | _ \<Rightarrow> Inr None)"

definition getETag :: "library \<Rightarrow> filesystem \<Rightarrow> string \<Rightarrow> stats \<Rightarrow> error + string" where
  "getETag lib fs filePath st =
     (if size_st st < 1024 * 1024 then
        (case fs_readFile fs filePath of
           Inl e \<Rightarrow> Inl e
         | Inr content \<Rightarrow> Inr (md5_hex lib content))
      else Inr (md5_hex lib (js_String (Num (size_st st)) @ ''-'' @ js_String (Num (mtime st)))))"

definition compressibleExtensions :: "string list" where
  "compressibleExtensions =
     [''.html'', ''.htm'', ''.css'', ''.js'', ''.json'', ''.xml'', ''.txt'', ''.svg'', ''.webmanifest'']"

definition shouldCompress :: "request \<Rightarrow> string \<Rightarrow> bool" where
  "shouldCompress req filePath =
     (case headers req ''accept-encoding'' of
        None \<Rightarrow> False
      | Some acceptEncoding \<Rightarrow>
          if \<not> includes_str acceptEncoding ''gzip'' then False
          else toLowerCase (path_extname filePath) \<in> set compressibleExtensions)"

definition sendErrorResponse :: "nat \<Rightarrow> string \<Rightarrow> response" where
  "sendErrorResponse statusCode message =
     \<lparr>status = statusCode, head = [(''Content-Type'', ''text/plain'')], body = EndText message\<rparr>"

definition getResponseHeaders ::
  "library \<Rightarrow> filesystem \<Rightarrow> request \<Rightarrow> string \<Rightarrow> stats \<Rightarrow> error + (header_list \<times> bool)" where
  "getResponseHeaders lib fs req filePath st =
     (let ext = toLowerCase (path_extname filePath);
          mimeType = (case mime_getType lib filePath of
                        None \<Rightarrow> ''application/octet-stream''
                      | Some t \<Rightarrow> if t = [] then ''application/octet-stream'' else t)
      in case getETag lib fs filePath st of
           Inl e \<Rightarrow> Inl e
         | Inr etag \<Rightarrow>
             let lastModified = toUTCString lib (mtime st);
                 isCached = (headers req ''if-none-match'' = Some etag
                             \<or> headers req ''if-modified-since'' = Some lastModified);
                 hs = [(''Content-Type'', mimeType),
                       (''ETag'', etag),
                       (''Last-Modified'', lastModified),
                       (''Cache-Control'',
                          if ext = ''.html'' then ''no-cache, must-revalidate''
                          else ''public, max-age=31536000, immutable''),
                       (''Accept-Ranges'', ''bytes'')]
             in Inr (hs, isCached))"

text \<open>
  \<open>sendRangeResponse\<close> and \<open>sendFileResponse\<close> return the response written and the
  final state of the \<open>headers\<close> object they mutate. \<open>parseRange\<close> on a missing header
  is a method call on \<open>undefined\<close>.
\<close>

definition sendRangeResponse ::
  "request \<Rightarrow> string \<Rightarrow> header_list \<Rightarrow> stats \<Rightarrow> error + (response \<times> header_list)" where
  "sendRangeResponse req filePath hs st =
     (case headers req ''range'' of
        None \<Rightarrow> Inl TypeError
      | Some rng \<Rightarrow>
          (case parseRange rng (size_st st) of
             None \<Rightarrow> Inr (sendErrorResponse 416 ''Range Not Satisfiable'', hs)
           | Some rangeVal \<Rightarrow>
               let hs1 = assign ''Content-Range''
                           (''bytes '' @ js_String (start rangeVal) @ ''-'' @ js_String (end_incl rangeVal)
                              @ ''/'' @ js_String (Num (size_st st))) hs;
                   hs2 = assign ''Content-Length''
                           (js_String (js_plus (js_minus (end_incl rangeVal) (start rangeVal)) (Num 1))) hs1;
                   fileStream = ReadStream filePath (Some rangeVal)
               in if shouldCompress req filePath then
                    Inr (\<lparr>status = 206, head = hs2, body = PipeGzip fileStream\<rparr>,
                         assign ''Content-Encoding'' ''gzip'' hs2)
                  else Inr (\<lparr>status = 206, head = hs2, body = Pipe fileStream\<rparr>, hs2)))"

definition sendFileResponse ::
  "request \<Rightarrow> string \<Rightarrow> header_list \<Rightarrow> stats \<Rightarrow> response \<times> header_list" where
  "sendFileResponse req filePath hs st =
     (let fileStream = ReadStream filePath None
      in if shouldCompress req filePath then
           let hs1 = assign ''Content-Encoding'' ''gzip'' hs
           in (\<lparr>status = 200, head = hs1, body = PipeGzip fileStream\<rparr>, hs1)
         else
           let hs1 = assign ''Content-Length'' (js_String (Num (size_st st))) hs
           in (\<lparr>status = 200, head = hs1, body = Pipe fileStream\<rparr>, hs1))"

text \<open>
  \<open>generateDirectoryIndex\<close>: the listing page, or \<open>null\<close> when anything inside its
  \<open>try\<close> block throws.
\<close>

definition generateDirectoryIndex :: "filesystem \<Rightarrow> string \<Rightarrow> string \<Rightarrow> string option" where
  "generateDirectoryIndex fs directoryPath pathname =
     (case fs_readdir fs directoryPath of
        Inl _ \<Rightarrow> None
      | Inr files \<Rightarrow>
          let list = concat (map (\<lambda>file. ''<li><a href='' @ [CHR 0x22] @ path_join [pathname, file]
                                          @ [CHR 0x22] @ ''>'' @ file @ ''</a></li>'') files)
          in (case decodeURIComponent pathname of
                Inl _ \<Rightarrow> None
              | Inr decoded \<Rightarrow>
                  Some (''<!DOCTYPE html><html lang='' @ [CHR 0x22] @ ''zh'' @ [CHR 0x22]
                        @ ''><head><meta charset='' @ [CHR 0x22] @ ''UTF-8'' @ [CHR 0x22]
                        @ ''></head><body><h1>Index of '' @ decoded @ ''</h1><ul>'' @ list
                        @ ''</ul></body></html>'')))"

text \<open>
  The part of \<open>handleRequest\<close> from the file's metadata on: the conditional check,
  then the ranged or the full response. (In the source it is the tail of the \<open>try\<close>
  block.)
\<close>

definition serveFile ::
  "library \<Rightarrow> filesystem \<Rightarrow> request \<Rightarrow> string \<Rightarrow> stats option \<Rightarrow> error + response" where
  "serveFile lib fs req requestPath stats_opt =
     (case stats_opt of
        None \<Rightarrow> Inr (sendErrorResponse 404 ''404 Not Found'')
      | Some st \<Rightarrow>
          (case getResponseHeaders lib fs req requestPath st of
             Inl e \<Rightarrow> Inl e
           | Inr (hs, isCached) \<Rightarrow>
               if isCached then Inr \<lparr>status = 304, head = [], body = EndEmpty\<rparr>
               else if (case headers req ''range'' of None \<Rightarrow> False | Some r \<Rightarrow> r \<noteq> []) then
                 (case sendRangeResponse req requestPath hs st of
                    Inl e \<Rightarrow> Inl e
                  | Inr (res, _) \<Rightarrow> Inr res)
               else Inr (fst (sendFileResponse req requestPath hs st))))"

text \<open>The \<open>try\<close> block of \<open>handleRequest\<close>.\<close>

definition handleRequest_try ::
  "config \<Rightarrow> library \<Rightarrow> filesystem \<Rightarrow> request \<Rightarrow> error + response" where
  "handleRequest_try cfg lib fs req =
     (case getRequestPath cfg lib req of
        Inl e \<Rightarrow> Inl e
      | Inr None \<Rightarrow> Inr (sendErrorResponse 403 ''403 Forbidden'')
      | Inr (Some requestPath) \<Rightarrow>
          if requestPath = [] then Inr (sendErrorResponse 403 ''403 Forbidden'')
          else
            (case getPathStats fs requestPath of
               Inl e \<Rightarrow> Inl e
             | Inr stats_opt \<Rightarrow>
                 if (case stats_opt of None \<Rightarrow> False | Some st \<Rightarrow> isDirectory st) then
                   let indexFilePath = path_join [requestPath, index cfg]
                   in (case getPathStats fs indexFilePath of
                         Inl e \<Rightarrow> Inl e
                       | Inr None \<Rightarrow>
                           (case url_pathname lib (case url req of None \<Rightarrow> [] | Some u \<Rightarrow> u)
                                   (''http://'' @ (case headers req ''host'' of
                                                     None \<Rightarrow> ''undefined'' | Some h \<Rightarrow> h)) of
                              Inl e \<Rightarrow> Inl e
                            | Inr pathname \<Rightarrow>
                                (case generateDirectoryIndex fs requestPath pathname of
                                   Some directoryIndex \<Rightarrow>
                                     Inr \<lparr>status = 200, head = [(''Content-Type'', ''text/html'')],
                                          body = EndText directoryIndex\<rparr>
                                 | None \<Rightarrow> Inr (sendErrorResponse 403 ''403 Forbidden'')))
                       | Inr (Some st) \<Rightarrow> serveFile lib fs req indexFilePath (Some st))
                 else serveFile lib fs req requestPath stats_opt))"

text \<open>\<open>handleRequest\<close>: the \<open>try\<close> block and its \<open>catch\<close>.\<close>

definition handleRequest :: "config \<Rightarrow> library \<Rightarrow> filesystem \<Rightarrow> request \<Rightarrow> response" where
  "handleRequest cfg lib fs req =
     (case handleRequest_try cfg lib fs req of
        Inl err \<Rightarrow> sendErrorResponse 500 ''500 Internal Server Error''
      | Inr res \<Rightarrow> res)"

text \<open>Whether a response body is piped through the gzip stream.\<close>

fun isGzip :: "body \<Rightarrow> bool" where
  "isGzip (PipeGzip _) = True"
| "isGzip _ = False"

text \<open>The characters of a hexadecimal digest (\<open>digest('hex')\<close>).\<close>

definition hexDigits :: "char set" where
  "hexDigits = set ''0123456789abcdef''"

section \<open>A sample deployment\<close>

text \<open>
  A concrete environment on which the handler is evaluated: the root \<open>/srv/www\<close> with
  an empty file \<open>a.txt\<close>, a directory \<open>d\<close> that holds \<open>x.txt\<close> and no index file, a
  directory \<open>private\<close> whose index file cannot be accessed, and a path \<open>secret\<close> whose
  metadata cannot be read. The library functions are fixed to values the real ones
  take on the inputs used: the path of a request target without dot segments is the
  target up to its query; the MD5 digests are those of the empty content and of the
  strings \<open>2097152-0\<close> and \<open>1048576-1000\<close>; the media types are those of
  \<open>.txt\<close> and \<open>.png\<close>; the time stamp 0 prints as the epoch.
\<close>

definition example_config :: config where
  "example_config = \<lparr>port = 3000, root = ''/srv/www'', index = ''index.html''\<rparr>"

definition example_library :: library where
  "example_library =
     \<lparr>url_pathname = (\<lambda>u base. Inr (takeWhile (\<lambda>c. c \<noteq> CHR ''?'' \<and> c \<noteq> CHR ''#'') u)),
      md5_hex = (\<lambda>content.
        if content = ''2097152-0'' then ''21c7fa817f832388112f7f8f6e4e248b''
        else if content = ''1048576-1000'' then ''854f7a25b9867ec8be17843d7f5ebc20''
        else ''d41d8cd98f00b204e9800998ecf8427e''),
      mime_getType = (\<lambda>p.
        if path_extname p = ''.txt'' then Some ''text/plain''
        else if path_extname p = ''.png'' then Some ''image/png''
        else None),
      toUTCString = (\<lambda>t. ''Thu, 01 Jan 1970 00:00:00 GMT'')\<rparr>"

definition example_fs :: filesystem where
  "example_fs =
     \<lparr>fs_stat = (\<lambda>p.
        if p = ''/srv/www/a.txt'' then Inr \<lparr>size_st = 0, mtime = 0, isDirectory = False\<rparr>
        else if p = ''/srv/www/d'' then Inr \<lparr>size_st = 4096, mtime = 0, isDirectory = True\<rparr>
        else if p = ''/srv/www/private'' then Inr \<lparr>size_st = 4096, mtime = 0, isDirectory = True\<rparr>
        else if p = ''/srv/www/private/index.html'' then Inl (SystemError ''EACCES'')
        else if p = ''/srv/www/secret'' then Inl (SystemError ''EACCES'')
        else Inl (SystemError ''ENOENT'')),
      fs_readFile = (\<lambda>p.
        if p = ''/srv/www/a.txt'' then Inr [] else Inl (SystemError ''ENOENT'')),
      fs_readdir = (\<lambda>p.
        if p = ''/srv/www/d'' then Inr [''x.txt''] else Inl (SystemError ''ENOENT''))\<rparr>"

text \<open>A request for \<open>target\<close> with the given headers besides \<open>Host\<close>.\<close>

definition example_request :: "string \<Rightarrow> (string \<times> string) list \<Rightarrow> request" where
  "example_request target hs =
     \<lparr>url = Some target, headers = map_of ((''host'', ''localhost:3000'') # hs)\<rparr>"

section \<open>Auxiliary facts\<close>

subsection \<open>Decimal numerals\<close>












subsection \<open>Strings and header lists\<close>





text \<open>\<open>includes_str\<close> is the substring test.\<close>

lemma includes_str_sublist: "includes_str s p = sublist p s"
  by (induction s) (auto simp: sublist_Cons_right)

lemma map_of_assign: "map_of (assign k v hs) k' = (if k' = k then Some v else map_of hs k')"
  by (induction hs) auto

subsection \<open>The request path and the branches of the handler\<close>

lemma path_normalize_nonempty: "path_normalize p \<noteq> []"
  by (simp add: path_normalize_def Let_def)

lemma getRequestPath_nonempty: "getRequestPath cfg lib req = Inr (Some p) \<Longrightarrow> p \<noteq> []"
  by (auto simp: getRequestPath_def Let_def path_normalize_nonempty
      split: option.splits if_splits sum.splits)

lemma getRequestPath_parsed:
  assumes "getRequestPath cfg lib req = Inr (Some p)"
  shows "\<exists>u host pathname decoded. url req = Some u \<and> headers req ''host'' = Some host
           \<and> url_pathname lib u (''http://'' @ host) = Inr pathname
           \<and> decodeURIComponent pathname = Inr decoded"
  using assms
  by (auto simp: getRequestPath_def Let_def split: option.splits if_splits sum.splits)

lemma handleRequest_file:
  assumes "getRequestPath cfg lib req = Inr (Some p)"
    and "fs_stat fs p = Inr st" and "\<not> isDirectory st"
  shows "handleRequest_try cfg lib fs req = serveFile lib fs req p (Some st)"
  using assms getRequestPath_nonempty [OF assms(1)]
  by (simp add: handleRequest_try_def getPathStats_def)

lemma handleRequest_index:
  assumes "getRequestPath cfg lib req = Inr (Some p)"
    and "fs_stat fs p = Inr d" and "isDirectory d"
    and "fs_stat fs (path_join [p, index cfg]) = Inr st"
  shows "handleRequest_try cfg lib fs req
           = serveFile lib fs req (path_join [p, index cfg]) (Some st)"
  using assms getRequestPath_nonempty [OF assms(1)]
  by (simp add: handleRequest_try_def getPathStats_def Let_def)

lemma handleRequest_stat_error:
  assumes "getRequestPath cfg lib req = Inr (Some p)" and "fs_stat fs p = Inl e"
  shows "handleRequest cfg lib fs req =
           (if err_code e = Some ''ENOENT'' then sendErrorResponse 404 ''404 Not Found''
            else sendErrorResponse 500 ''500 Internal Server Error'')"
  using assms getRequestPath_nonempty [OF assms(1)]
  by (simp add: handleRequest_def handleRequest_try_def getPathStats_def serveFile_def)

lemma handleRequest_index_error:
  assumes "getRequestPath cfg lib req = Inr (Some p)"
    and "fs_stat fs p = Inr d" and "isDirectory d"
    and "fs_stat fs (path_join [p, index cfg]) = Inl e" and "err_code e \<noteq> Some ''ENOENT''"
  shows "handleRequest cfg lib fs req = sendErrorResponse 500 ''500 Internal Server Error''"
  using assms getRequestPath_nonempty [OF assms(1)]
  by (simp add: handleRequest_def handleRequest_try_def getPathStats_def Let_def)

text \<open>
  A directory without an index file: the listing when the directory can be read,
  403 otherwise. The path decodes a second time because it decoded in
  \<open>getRequestPath\<close>.
\<close>

lemma handleRequest_index_absent:
  assumes "getRequestPath cfg lib req = Inr (Some p)"
    and "fs_stat fs p = Inr d" and "isDirectory d"
    and "fs_stat fs (path_join [p, index cfg]) = Inl e" and "err_code e = Some ''ENOENT''"
  shows "status (handleRequest cfg lib fs req)
           = (case fs_readdir fs p of Inl _ \<Rightarrow> 403 | Inr _ \<Rightarrow> 200)"
proof -
  from getRequestPath_parsed [OF assms(1)] obtain u host pathname decoded where
    u: "url req = Some u" and h: "headers req ''host'' = Some host"
    and pn: "url_pathname lib u (''http://'' @ host) = Inr pathname"
    and dec: "decodeURIComponent pathname = Inr decoded"
    by blast
  have "handleRequest_try cfg lib fs req =
          (case generateDirectoryIndex fs p pathname of
             Some directoryIndex \<Rightarrow>
               Inr \<lparr>status = 200, head = [(''Content-Type'', ''text/html'')],
                    body = EndText directoryIndex\<rparr>
           | None \<Rightarrow> Inr (sendErrorResponse 403 ''403 Forbidden''))"
    using assms getRequestPath_nonempty [OF assms(1)] u h pn
    by (simp add: handleRequest_try_def getPathStats_def Let_def)
  then show ?thesis
    using dec
    by (simp add: handleRequest_def generateDirectoryIndex_def sendErrorResponse_def Let_def
        split: sum.splits)
qed

lemma serveFile_cached:
  assumes "getETag lib fs filePath st = Inr etag"
    and "headers req ''if-none-match'' = Some etag
         \<or> headers req ''if-modified-since'' = Some (toUTCString lib (mtime st))"
  shows "serveFile lib fs req filePath (Some st)
           = Inr \<lparr>status = 304, head = [], body = EndEmpty\<rparr>"
  using assms by (auto simp: serveFile_def getResponseHeaders_def Let_def)

subsection \<open>Compression\<close>

lemma shouldCompress_iff:
  "shouldCompress req filePath \<longleftrightarrow>
     (\<exists>ae. headers req ''accept-encoding'' = Some ae \<and> includes_str ae ''gzip'')
     \<and> toLowerCase (path_extname filePath) \<in> set compressibleExtensions"
  by (auto simp: shouldCompress_def split: option.splits)

lemma getResponseHeaders_no_encoding:
  "getResponseHeaders lib fs req filePath st = Inr (hs, c)
   \<Longrightarrow> map_of hs ''Content-Encoding'' = None"
  by (auto simp: getResponseHeaders_def Let_def split: sum.splits)

lemma png_not_compressible: "''.png'' \<notin> set compressibleExtensions"
  by (simp add: compressibleExtensions_def)

lemma js_compressible: "''.js'' \<in> set compressibleExtensions"
  by (simp add: compressibleExtensions_def)

lemma toLowerCase_png: "toLowerCase ''.png'' = ''.png''"
  by (simp add: toLowerCase_def lowerChar_def)

lemma toLowerCase_js: "toLowerCase ''.js'' = ''.js''"
  by (simp add: toLowerCase_def lowerChar_def)

lemma sendFileResponse_cases:
  "sendFileResponse req filePath hs st =
     (if shouldCompress req filePath then
        (\<lparr>status = 200, head = assign ''Content-Encoding'' ''gzip'' hs,
          body = PipeGzip (ReadStream filePath None)\<rparr>, assign ''Content-Encoding'' ''gzip'' hs)
      else
        (\<lparr>status = 200, head = assign ''Content-Length'' (js_String (Num (size_st st))) hs,
          body = Pipe (ReadStream filePath None)\<rparr>,
         assign ''Content-Length'' (js_String (Num (size_st st))) hs))"
  by (simp add: sendFileResponse_def Let_def)

lemma sendRangeResponse_gzip:
  "sendRangeResponse req filePath hs st = Inr (res, hs') \<Longrightarrow> isGzip (body res)
   \<Longrightarrow> shouldCompress req filePath \<and> (\<exists>r. body res = PipeGzip (ReadStream filePath r))"
  by (auto simp: sendRangeResponse_def sendErrorResponse_def Let_def
      split: option.splits if_splits)

lemma sendRangeResponse_encoding:
  "sendRangeResponse req filePath hs st = Inr (res, hs')
   \<Longrightarrow> map_of hs ''Content-Encoding'' = None
   \<Longrightarrow> map_of (head res) ''Content-Encoding'' = None"
  by (auto simp: sendRangeResponse_def sendErrorResponse_def Let_def map_of_assign
      split: option.splits if_splits)

text \<open>
  A response of \<open>serveFile\<close> that is compressed, or that announces an encoding, is a
  response for a file that \<open>shouldCompress\<close> accepts.
\<close>

lemma serveFile_gzip:
  assumes "serveFile lib fs req filePath so = Inr res"
    and "isGzip (body res) \<or> map_of (head res) ''Content-Encoding'' \<noteq> None"
  shows "shouldCompress req filePath \<and> (\<exists>r. body res = PipeGzip (ReadStream filePath r))"
proof (cases so)
  case None
  with assms show ?thesis by (auto simp: serveFile_def sendErrorResponse_def)
next
  case (Some st)
  with assms(1) obtain hs c where g: "getResponseHeaders lib fs req filePath st = Inr (hs, c)"
    by (auto simp: serveFile_def split: sum.splits)
  note ne = getResponseHeaders_no_encoding [OF g]
  show ?thesis
  proof (cases c)
    case True
    with assms g Some show ?thesis by (auto simp: serveFile_def)
  next
    case False
    show ?thesis
    proof (cases "case headers req ''range'' of None \<Rightarrow> False | Some r \<Rightarrow> r \<noteq> []")
      case True
      with assms(1) g Some \<open>\<not> c\<close> obtain hs' where
        s: "sendRangeResponse req filePath hs st = Inr (res, hs')"
        by (auto simp: serveFile_def split: sum.splits)
      from sendRangeResponse_encoding [OF s ne] assms(2) have "isGzip (body res)" by simp
      from sendRangeResponse_gzip [OF s this] show ?thesis .
    next
      case False
      with assms(1) g Some \<open>\<not> c\<close> have "res = fst (sendFileResponse req filePath hs st)"
        by (auto simp: serveFile_def)
      with assms(2) ne show ?thesis
        by (auto simp: sendFileResponse_cases map_of_assign split: if_splits)
    qed
  qed
qed

lemma handleRequest_try_cases:
  assumes "handleRequest_try cfg lib fs req = Inr res"
  shows "(\<not> isGzip (body res) \<and> map_of (head res) ''Content-Encoding'' = None)
         \<or> (\<exists>filePath so. serveFile lib fs req filePath so = Inr res)"
  using assms
  by (auto simp: handleRequest_try_def sendErrorResponse_def Let_def
      split: sum.splits option.splits if_splits)

lemma handleRequest_gzip:
  assumes "isGzip (body (handleRequest cfg lib fs req))
           \<or> map_of (head (handleRequest cfg lib fs req)) ''Content-Encoding'' \<noteq> None"
  shows "\<exists>filePath r. body (handleRequest cfg lib fs req) = PipeGzip (ReadStream filePath r)
           \<and> shouldCompress req filePath"
proof (cases "handleRequest_try cfg lib fs req")
  case (Inl e)
  with assms show ?thesis by (simp add: handleRequest_def sendErrorResponse_def)
next
  case (Inr res)
  then have eq: "handleRequest cfg lib fs req = res" by (simp add: handleRequest_def)
  with assms handleRequest_try_cases [OF Inr] obtain filePath so where
    "serveFile lib fs req filePath so = Inr res" by auto
  from serveFile_gzip [OF this] assms eq show ?thesis by auto
qed

subsection \<open>Well-formed range headers\<close>








subsection \<open>Digests\<close>

lemma card_hexDigits: "card hexDigits = 16"
  unfolding hexDigits_def by (subst distinct_card) simp_all

text \<open>
  A function into the strings of 32 hexadecimal digits cannot be injective on the
  contents of 17 bytes: there are \<open>256^17\<close> of these and \<open>16^32\<close> of those.
\<close>

lemma digest_not_injective:
  fixes h :: "string \<Rightarrow> string"
  assumes fmt: "\<And>x. length (h x) = 32 \<and> set (h x) \<subseteq> hexDigits"
  shows "\<exists>c c'. length c = 17 \<and> length c' = 17 \<and> c \<noteq> c' \<and> h c = h c'"
proof (rule ccontr)
  assume "\<not> ?thesis"
  let ?A = "{xs :: string. set xs \<subseteq> UNIV \<and> length xs = 17}"
  let ?B = "{ys :: string. set ys \<subseteq> hexDigits \<and> length ys = 32}"
  from \<open>\<not> ?thesis\<close> have inj: "inj_on h ?A" by (auto simp: inj_on_def)
  have sub: "h ` ?A \<subseteq> ?B" using fmt by auto
  have finH: "finite hexDigits" by (simp add: hexDigits_def)
  have finB: "finite ?B" using finH by (rule finite_lists_length_eq)
  have cA: "card ?A = 256 ^ 17"
    using card_lists_length_eq [of "UNIV :: char set" 17] by (simp add: card_UNIV_char)
  have cB: "card ?B = 16 ^ 32"
    using card_lists_length_eq [OF finH, of 32] by (simp only: card_hexDigits)
  from card_inj_on_le [OF inj sub finB] have "(256::nat) ^ 17 \<le> 16 ^ 32"
    by (simp only: cA cB)
  then show False by simp
qed

section \<open>Containment of the request path\<close>

text \<open>
  C1. Take a request with a URL and a Host header whose URL parses and whose path
  percent-decodes. If the decoded path, joined onto the configured root and
  normalized, does not begin with the root, then \<open>getRequestPath\<close> returns the rejected
  sentinel \<open>null\<close> and the handler answers 403. The test is made on the normalized
  path, after decoding.
\<close>

theorem getRequestPath_rejects_outside_root:
  assumes "url req = Some u" and "u \<noteq> []"
    and "headers req ''host'' = Some host" and "host \<noteq> []"
    and "url_pathname lib u (''http://'' @ host) = Inr pathname"
    and "decodeURIComponent pathname = Inr decoded"
    and "\<not> startsWith (path_normalize (path_join [root cfg, decoded])) (root cfg)"
  shows "getRequestPath cfg lib req = Inr None
         \<and> handleRequest cfg lib fs req =
             \<lparr>status = 403, head = [(''Content-Type'', ''text/plain'')],
              body = EndText ''403 Forbidden''\<rparr>"
proof -
  have "getRequestPath cfg lib req = Inr None"
    using assms by (simp add: getRequestPath_def Let_def)
  then show ?thesis
    by (simp add: handleRequest_def handleRequest_try_def sendErrorResponse_def)
qed

text \<open>
  The request \<open>/..%2f..%2fetc/passwd\<close> on the sample deployment: the escapes decode to
  \<open>/../../etc/passwd\<close>, the joined path normalizes to \<open>/etc/passwd\<close>, and the request
  is rejected.
\<close>

theorem getRequestPath_rejects_outside_root_witness:
  "decodeURIComponent ''/..%2f..%2fetc/passwd'' = Inr ''/../../etc/passwd''
   \<and> path_normalize (path_join [root example_config, ''/../../etc/passwd'']) = ''/etc/passwd''
   \<and> getRequestPath example_config example_library
        (example_request ''/..%2f..%2fetc/passwd'' []) = Inr None
   \<and> status (handleRequest example_config example_library example_fs
        (example_request ''/..%2f..%2fetc/passwd'' [])) = 403"
proof -
  have d: "decodeURIComponent ''/..%2f..%2fetc/passwd'' = Inr ''/../../etc/passwd''"
    by code_simp
  have n: "path_normalize (path_join [root example_config, ''/../../etc/passwd''])
             = ''/etc/passwd''"
    by code_simp
  have s: "\<not> startsWith (path_normalize (path_join [root example_config, ''/../../etc/passwd'']))
               (root example_config)"
    unfolding n by (simp add: startsWith_def example_config_def)
  have u: "url (example_request ''/..%2f..%2fetc/passwd'' []) = Some ''/..%2f..%2fetc/passwd''"
    and h: "headers (example_request ''/..%2f..%2fetc/passwd'' []) ''host''
              = Some ''localhost:3000''"
    by (simp_all add: example_request_def)
  have pn: "url_pathname example_library ''/..%2f..%2fetc/passwd''
              (''http://'' @ ''localhost:3000'') = Inr ''/..%2f..%2fetc/passwd''"
    by (simp add: example_library_def)
  from getRequestPath_rejects_outside_root [OF u _ h _ pn d s, of example_fs] d n
  show ?thesis by simp
qed

section \<open>Range requests\<close>

text \<open>
  C2. The claim is that every range \<open>parseRange\<close> returns has \<open>0 \<le> start \<le> end < size\<close>.
  \<open>parseRange\<close> only tests \<open>start >= size || end >= size\<close>, so it returns a negative
  start for a suffix longer than the file, a reversed range as it is written, and a
  \<open>NaN\<close> start when nothing parses (every comparison with \<open>NaN\<close> is false).
\<close>

theorem parseRange_returns_invalid_ranges:
  "parseRange ''bytes=-500'' 100 = Some \<lparr>start = Num (- 400), end_incl = Num 99\<rparr>
   \<and> parseRange ''bytes=5-2'' 10 = Some \<lparr>start = Num 5, end_incl = Num 2\<rparr>
   \<and> parseRange ''bytes=abc'' 100 = Some \<lparr>start = NaN, end_incl = Num 99\<rparr>"
  by code_simp

text \<open>
  Against C3 as it is stated: the header \<open>bytes=abc-def\<close>, neither field of which
  parses, is not unsatisfiable for a file of 100 bytes; and the answer to the
  unsatisfiable \<open>bytes=200-300\<close> carries the body \<open>Range Not Satisfiable\<close>.
\<close>

theorem malformed_range_not_rejected:
  "parseInt ''abc'' = NaN \<and> parseInt ''def'' = NaN
   \<and> parseRange ''bytes=abc-def'' 100 = Some \<lparr>start = NaN, end_incl = Num 99\<rparr>
   \<and> sendRangeResponse (example_request ''/a.bin'' [(''range'', ''bytes=200-300'')])
        ''/srv/www/a.bin'' [] \<lparr>size_st = 100, mtime = 0, isDirectory = False\<rparr>
      = Inr (\<lparr>status = 416, head = [(''Content-Type'', ''text/plain'')],
               body = EndText ''Range Not Satisfiable''\<rparr>, [])"
  by code_simp

text \<open>
  C3, amended. Every range request that \<open>parseRange\<close> finds unsatisfiable is answered
  with status 416, the content type \<open>text/plain\<close> and the body
  \<open>Range Not Satisfiable\<close>; the headers object is left as it was.
\<close>

theorem unsatisfiable_range_416:
  assumes "headers req ''range'' = Some rng" and "parseRange rng (size_st st) = None"
  shows "sendRangeResponse req filePath hs st =
           Inr (\<lparr>status = 416, head = [(''Content-Type'', ''text/plain'')],
                 body = EndText ''Range Not Satisfiable''\<rparr>, hs)"
  using assms by (simp add: sendRangeResponse_def sendErrorResponse_def)

theorem unsatisfiable_range_416_witness:
  "parseRange ''bytes=200-300'' 100 = None
   \<and> sendRangeResponse (example_request ''/a.bin'' [(''range'', ''bytes=200-300'')])
        ''/srv/www/a.bin'' [(''Accept-Ranges'', ''bytes'')]
        \<lparr>size_st = 100, mtime = 0, isDirectory = False\<rparr>
      = Inr (\<lparr>status = 416, head = [(''Content-Type'', ''text/plain'')],
               body = EndText ''Range Not Satisfiable''\<rparr>, [(''Accept-Ranges'', ''bytes'')])"
proof -
  let ?req = "example_request ''/a.bin'' [(''range'', ''bytes=200-300'')]"
  let ?st = "\<lparr>size_st = 100, mtime = 0, isDirectory = False\<rparr>"
  have p: "parseRange ''bytes=200-300'' 100 = None" by code_simp
  have r: "headers ?req ''range'' = Some ''bytes=200-300''"
    by (simp add: example_request_def)
  have p': "parseRange ''bytes=200-300'' (size_st ?st) = None" using p by simp
  from unsatisfiable_range_416 [OF r p', of "''/srv/www/a.bin''" "[(''Accept-Ranges'', ''bytes'')]"] p
  show ?thesis by simp
qed



text \<open>
  C6. The claim is that a satisfiable ranged request for a compressible file from a
  client that accepts gzip gets a 206 response with \<open>Content-Encoding: gzip\<close> and
  without the \<open>Content-Length\<close> of the raw range. \<open>sendRangeResponse\<close> calls
  \<open>res.writeHead(206, headers)\<close> before it decides on compression: the head that is
  written has the raw \<open>Content-Length\<close> and no \<open>Content-Encoding\<close>, the body is
  compressed all the same, and \<open>Content-Encoding\<close> is only added to the headers object
  afterwards.
\<close>

theorem ranged_gzip_head:
  assumes "headers req ''range'' = Some rng"
    and "parseRange rng (size_st st) = Some r"
    and "shouldCompress req filePath"
    and "map_of hs ''Content-Encoding'' = None"
  shows "\<exists>res hs'. sendRangeResponse req filePath hs st = Inr (res, hs')
           \<and> status res = 206
           \<and> body res = PipeGzip (ReadStream filePath (Some r))
           \<and> map_of (head res) ''Content-Encoding'' = None
           \<and> map_of (head res) ''Content-Length''
               = Some (js_String (js_plus (js_minus (end_incl r) (start r)) (Num 1)))
           \<and> map_of hs' ''Content-Encoding'' = Some ''gzip''"
  using assms by (simp add: sendRangeResponse_def Let_def map_of_assign)

text \<open>
  The first ten bytes of \<open>app.js\<close> (100 bytes) for a client that accepts gzip, and the
  full response to the same client, where \<open>sendFileResponse\<close> sets the encoding
  before it writes the head and sets no length.
\<close>

theorem ranged_gzip_head_witness:
  "shouldCompress
     (example_request ''/app.js'' [(''range'', ''bytes=0-9''), (''accept-encoding'', ''gzip'')])
     ''/srv/www/app.js''
   \<and> sendRangeResponse
        (example_request ''/app.js'' [(''range'', ''bytes=0-9''), (''accept-encoding'', ''gzip'')])
        ''/srv/www/app.js'' [(''Accept-Ranges'', ''bytes'')]
        \<lparr>size_st = 100, mtime = 0, isDirectory = False\<rparr>
      = Inr (\<lparr>status = 206,
               head = [(''Accept-Ranges'', ''bytes''), (''Content-Range'', ''bytes 0-9/100''),
                       (''Content-Length'', ''10'')],
               body = PipeGzip (ReadStream ''/srv/www/app.js''
                                  (Some \<lparr>start = Num 0, end_incl = Num 9\<rparr>))\<rparr>,
             [(''Accept-Ranges'', ''bytes''), (''Content-Range'', ''bytes 0-9/100''),
              (''Content-Length'', ''10''), (''Content-Encoding'', ''gzip'')])
   \<and> sendFileResponse (example_request ''/app.js'' [(''accept-encoding'', ''gzip'')])
        ''/srv/www/app.js'' [(''Accept-Ranges'', ''bytes'')]
        \<lparr>size_st = 100, mtime = 0, isDirectory = False\<rparr>
      = (\<lparr>status = 200,
           head = [(''Accept-Ranges'', ''bytes''), (''Content-Encoding'', ''gzip'')],
           body = PipeGzip (ReadStream ''/srv/www/app.js'' None)\<rparr>,
         [(''Accept-Ranges'', ''bytes''), (''Content-Encoding'', ''gzip'')])"
proof -
  let ?req = "example_request ''/app.js'' [(''range'', ''bytes=0-9''), (''accept-encoding'', ''gzip'')]"
  let ?st = "\<lparr>size_st = 100, mtime = 0, isDirectory = False\<rparr>"
  have r: "headers ?req ''range'' = Some ''bytes=0-9''" by (simp add: example_request_def)
  have p: "parseRange ''bytes=0-9'' (size_st ?st) = Some \<lparr>start = Num 0, end_incl = Num 9\<rparr>"
    by code_simp
  have c: "shouldCompress ?req ''/srv/www/app.js''" by code_simp
  have n: "map_of [(''Accept-Ranges'', ''bytes'')] ''Content-Encoding'' = None" by simp
  have ev: "sendRangeResponse ?req ''/srv/www/app.js'' [(''Accept-Ranges'', ''bytes'')] ?st
      = Inr (\<lparr>status = 206,
               head = [(''Accept-Ranges'', ''bytes''), (''Content-Range'', ''bytes 0-9/100''),
                       (''Content-Length'', ''10'')],
               body = PipeGzip (ReadStream ''/srv/www/app.js''
                                  (Some \<lparr>start = Num 0, end_incl = Num 9\<rparr>))\<rparr>,
             [(''Accept-Ranges'', ''bytes''), (''Content-Range'', ''bytes 0-9/100''),
              (''Content-Length'', ''10''), (''Content-Encoding'', ''gzip'')])"
    by code_simp
  have sib: "sendFileResponse (example_request ''/app.js'' [(''accept-encoding'', ''gzip'')])
        ''/srv/www/app.js'' [(''Accept-Ranges'', ''bytes'')] ?st
      = (\<lparr>status = 200,
           head = [(''Accept-Ranges'', ''bytes''), (''Content-Encoding'', ''gzip'')],
           body = PipeGzip (ReadStream ''/srv/www/app.js'' None)\<rparr>,
         [(''Accept-Ranges'', ''bytes''), (''Content-Encoding'', ''gzip'')])"
    by code_simp
  from ranged_gzip_head [OF r p c n] c ev sib show ?thesis by simp
qed

section \<open>Conditional requests\<close>

text \<open>
  C4. Take a request that resolves to a file: the requested path itself, or the index
  file of a requested directory, with its fingerprint computed. If the request's
  \<open>If-None-Match\<close> equals the fingerprint, or its \<open>If-Modified-Since\<close> equals the
  formatted modification time (either alone), the response is 304 with no header and
  an empty body, whatever the \<open>Range\<close> and \<open>Accept-Encoding\<close> headers are: the
  handler returns before the branch that leads to \<open>parseRange\<close> and \<open>shouldCompress\<close>.
\<close>

theorem cached_request_304:
  assumes "getRequestPath cfg lib req = Inr (Some p)"
    and "(fs_stat fs p = Inr st \<and> \<not> isDirectory st \<and> filePath = p)
         \<or> (\<exists>d. fs_stat fs p = Inr d \<and> isDirectory d
                 \<and> fs_stat fs (path_join [p, index cfg]) = Inr st
                 \<and> filePath = path_join [p, index cfg])"
    and "getETag lib fs filePath st = Inr etag"
    and "headers req ''if-none-match'' = Some etag
         \<or> headers req ''if-modified-since'' = Some (toUTCString lib (mtime st))"
  shows "handleRequest cfg lib fs req = \<lparr>status = 304, head = [], body = EndEmpty\<rparr>"
proof -
  have "handleRequest_try cfg lib fs req = serveFile lib fs req filePath (Some st)"
    using assms(2) handleRequest_file [OF assms(1)] handleRequest_index [OF assms(1)]
    by auto
  then show ?thesis
    using serveFile_cached [OF assms(3,4)] by (simp add: handleRequest_def)
qed

text \<open>
  The empty file \<open>a.txt\<close> requested with its fingerprint in \<open>If-None-Match\<close>, together
  with a \<open>Range\<close> and an \<open>Accept-Encoding\<close> header.
\<close>

theorem cached_request_304_witness:
  "getRequestPath example_config example_library
      (example_request ''/a.txt'' [(''if-none-match'', ''d41d8cd98f00b204e9800998ecf8427e''),
         (''range'', ''bytes=0-0''), (''accept-encoding'', ''gzip'')]) = Inr (Some ''/srv/www/a.txt'')
   \<and> getETag example_library example_fs ''/srv/www/a.txt''
        \<lparr>size_st = 0, mtime = 0, isDirectory = False\<rparr>
       = Inr ''d41d8cd98f00b204e9800998ecf8427e''
   \<and> handleRequest example_config example_library example_fs
      (example_request ''/a.txt'' [(''if-none-match'', ''d41d8cd98f00b204e9800998ecf8427e''),
         (''range'', ''bytes=0-0''), (''accept-encoding'', ''gzip'')])
      = \<lparr>status = 304, head = [], body = EndEmpty\<rparr>"
proof -
  let ?req = "example_request ''/a.txt'' [(''if-none-match'', ''d41d8cd98f00b204e9800998ecf8427e''),
         (''range'', ''bytes=0-0''), (''accept-encoding'', ''gzip'')]"
  let ?st = "\<lparr>size_st = 0, mtime = 0, isDirectory = False\<rparr>"
  have rp: "getRequestPath example_config example_library ?req = Inr (Some ''/srv/www/a.txt'')"
    by code_simp
  have st: "fs_stat example_fs ''/srv/www/a.txt'' = Inr ?st \<and> \<not> isDirectory ?st
            \<and> ''/srv/www/a.txt'' = ''/srv/www/a.txt''"
    by (simp add: example_fs_def)
  have et: "getETag example_library example_fs ''/srv/www/a.txt'' ?st
              = Inr ''d41d8cd98f00b204e9800998ecf8427e''"
    by (simp add: getETag_def example_library_def example_fs_def)
  have inm: "headers ?req ''if-none-match'' = Some ''d41d8cd98f00b204e9800998ecf8427e''"
    by (simp add: example_request_def)
  from cached_request_304 [OF rp disjI1 [OF st] et disjI1 [OF inm]] rp et
  show ?thesis by simp
qed

section \<open>Compression\<close>

text \<open>
  C7. For every request, a response of the handler that is gzip-compressed, or that
  carries a \<open>Content-Encoding\<close> header, is the stream of a file whose extension, in
  lower case, is in the allow-list, for a request whose \<open>Accept-Encoding\<close> header
  contains \<open>gzip\<close>. For a file with the extension \<open>.png\<close> neither the full nor the
  ranged response is compressed or carries \<open>Content-Encoding\<close>. For a file with the
  extension \<open>.js\<close> and a request that accepts gzip, the full response
  (\<open>sendFileResponse\<close>) carries \<open>Content-Encoding: gzip\<close> and is compressed; and the
  full response is what the handler sends for a request without a \<open>Range\<close> header
  that resolves to a regular file and is not answered from the cache.
\<close>

theorem compression_gating:
  "(isGzip (body (handleRequest cfg lib fs req))
      \<or> map_of (head (handleRequest cfg lib fs req)) ''Content-Encoding'' \<noteq> None
     \<longrightarrow> (\<exists>filePath r ae.
            body (handleRequest cfg lib fs req) = PipeGzip (ReadStream filePath r)
            \<and> headers req ''accept-encoding'' = Some ae \<and> includes_str ae ''gzip''
            \<and> toLowerCase (path_extname filePath) \<in>
                set [''.html'', ''.htm'', ''.css'', ''.js'', ''.json'', ''.xml'', ''.txt'', ''.svg'',
                     ''.webmanifest'']))
   \<and> (path_extname filePath = ''.png''
        \<and> getResponseHeaders lib fs req filePath st = Inr (hs, cached)
     \<longrightarrow> map_of (head (fst (sendFileResponse req filePath hs st))) ''Content-Encoding'' = None
         \<and> \<not> isGzip (body (fst (sendFileResponse req filePath hs st)))
         \<and> (\<forall>res hs'. sendRangeResponse req filePath hs st = Inr (res, hs')
               \<longrightarrow> map_of (head res) ''Content-Encoding'' = None \<and> \<not> isGzip (body res)))
   \<and> (path_extname filePath = ''.js''
        \<and> headers req ''accept-encoding'' = Some ae \<and> includes_str ae ''gzip''
     \<longrightarrow> map_of (head (fst (sendFileResponse req filePath hs st))) ''Content-Encoding''
           = Some ''gzip''
         \<and> body (fst (sendFileResponse req filePath hs st)) = PipeGzip (ReadStream filePath None))
   \<and> (getRequestPath cfg lib req = Inr (Some filePath)
        \<and> fs_stat fs filePath = Inr st \<and> \<not> isDirectory st
        \<and> getResponseHeaders lib fs req filePath st = Inr (hs, False)
        \<and> headers req ''range'' = None
     \<longrightarrow> handleRequest cfg lib fs req = fst (sendFileResponse req filePath hs st))"
  (is "(?A1 \<longrightarrow> ?B1) \<and> (?A2 \<longrightarrow> ?B2) \<and> (?A3 \<longrightarrow> ?B3) \<and> (?A4 \<longrightarrow> ?B4)")
proof -
  have 1: "?A1 \<longrightarrow> ?B1"
  proof
    assume ?A1
    from handleRequest_gzip [OF this] obtain filePath r where
      "body (handleRequest cfg lib fs req) = PipeGzip (ReadStream filePath r)"
      "shouldCompress req filePath" by blast
    then show ?B1
      unfolding shouldCompress_iff compressibleExtensions_def by blast
  qed
  have 2: "?A2 \<longrightarrow> ?B2"
  proof
    assume a: ?A2
    then have nc: "\<not> shouldCompress req filePath"
      by (simp add: shouldCompress_iff toLowerCase_png png_not_compressible)
    from a have ne: "map_of hs ''Content-Encoding'' = None"
      using getResponseHeaders_no_encoding by blast
    show ?B2
      using nc ne sendRangeResponse_encoding [of req filePath hs st]
        sendRangeResponse_gzip [of req filePath hs st]
      by (auto simp: sendFileResponse_cases map_of_assign)
  qed
  have 3: "?A3 \<longrightarrow> ?B3"
  proof
    assume ?A3
    then have "shouldCompress req filePath"
      by (simp add: shouldCompress_iff toLowerCase_js js_compressible)
    then show ?B3
      by (simp add: sendFileResponse_cases map_of_assign)
  qed
  have 4: "?A4 \<longrightarrow> ?B4"
  proof
    assume a: ?A4
    then have "handleRequest_try cfg lib fs req = serveFile lib fs req filePath (Some st)"
      using handleRequest_file by blast
    with a show ?B4 by (simp add: handleRequest_def serveFile_def)
  qed
  show ?thesis by (rule conjI [OF 1 conjI [OF 2 conjI [OF 3 4]]])
qed

text \<open>
  \<open>a.txt\<close> requested with \<open>Accept-Encoding: gzip\<close> is compressed; \<open>logo.png\<close> with the
  same header is not; \<open>app.js\<close> is.
\<close>

theorem compression_gating_witness:
  "(\<exists>filePath r ae.
      body (handleRequest example_config example_library example_fs
             (example_request ''/a.txt'' [(''accept-encoding'', ''gzip'')]))
        = PipeGzip (ReadStream filePath r)
      \<and> headers (example_request ''/a.txt'' [(''accept-encoding'', ''gzip'')]) ''accept-encoding''
          = Some ae
      \<and> includes_str ae ''gzip''
      \<and> toLowerCase (path_extname filePath) \<in>
          set [''.html'', ''.htm'', ''.css'', ''.js'', ''.json'', ''.xml'', ''.txt'', ''.svg'',
               ''.webmanifest''])
   \<and> path_extname ''/srv/www/logo.png'' = ''.png''
   \<and> map_of (head (fst (sendFileResponse (example_request ''/logo.png'' [(''accept-encoding'', ''gzip'')])
        ''/srv/www/logo.png''
        [(''Content-Type'', ''image/png''),
         (''ETag'', ''21c7fa817f832388112f7f8f6e4e248b''),
         (''Last-Modified'', ''Thu, 01 Jan 1970 00:00:00 GMT''),
         (''Cache-Control'', ''public, max-age=31536000, immutable''),
         (''Accept-Ranges'', ''bytes'')]
        \<lparr>size_st = 2097152, mtime = 0, isDirectory = False\<rparr>)))
        ''Content-Encoding'' = None
   \<and> path_extname ''/srv/www/app.js'' = ''.js''
   \<and> map_of (head (fst (sendFileResponse (example_request ''/app.js'' [(''accept-encoding'', ''gzip'')])
        ''/srv/www/app.js'' [] \<lparr>size_st = 100, mtime = 0, isDirectory = False\<rparr>)))
        ''Content-Encoding'' = Some ''gzip''
   \<and> handleRequest example_config example_library example_fs
        (example_request ''/a.txt'' [(''accept-encoding'', ''gzip'')])
      = \<lparr>status = 200,
         head = [(''Content-Type'', ''text/plain''),
                 (''ETag'', ''d41d8cd98f00b204e9800998ecf8427e''),
                 (''Last-Modified'', ''Thu, 01 Jan 1970 00:00:00 GMT''),
                 (''Cache-Control'', ''public, max-age=31536000, immutable''),
                 (''Accept-Ranges'', ''bytes''),
                 (''Content-Encoding'', ''gzip'')],
         body = PipeGzip (ReadStream ''/srv/www/a.txt'' None)\<rparr>"
proof -
  let ?txt = "example_request ''/a.txt'' [(''accept-encoding'', ''gzip'')]"
  let ?png = "example_request ''/logo.png'' [(''accept-encoding'', ''gzip'')]"
  let ?js = "example_request ''/app.js'' [(''accept-encoding'', ''gzip'')]"
  let ?empty = "\<lparr>size_st = 0, mtime = 0, isDirectory = False\<rparr>"
  let ?big = "\<lparr>size_st = 2097152, mtime = 0, isDirectory = False\<rparr>"
  let ?small = "\<lparr>size_st = 100, mtime = 0, isDirectory = False\<rparr>"
  let ?hs = "[(''Content-Type'', ''image/png''),
              (''ETag'', ''21c7fa817f832388112f7f8f6e4e248b''),
              (''Last-Modified'', ''Thu, 01 Jan 1970 00:00:00 GMT''),
              (''Cache-Control'', ''public, max-age=31536000, immutable''),
              (''Accept-Ranges'', ''bytes'')]"
  let ?hs' = "[(''Content-Type'', ''text/plain''),
               (''ETag'', ''d41d8cd98f00b204e9800998ecf8427e''),
               (''Last-Modified'', ''Thu, 01 Jan 1970 00:00:00 GMT''),
               (''Cache-Control'', ''public, max-age=31536000, immutable''),
               (''Accept-Ranges'', ''bytes'')]"
  have b: "body (handleRequest example_config example_library example_fs ?txt)
             = PipeGzip (ReadStream ''/srv/www/a.txt'' None)"
    by code_simp
  have e1: "path_extname ''/srv/www/logo.png'' = ''.png''" by code_simp
  have e2: "path_extname ''/srv/www/app.js'' = ''.js''" by code_simp
  have dec: "decimal 2097152 = ''2097152''" "decimal 0 = ''0''"
  proof -
    have dc: "digitChar 0 = CHR ''0''" "digitChar (Suc 0) = CHR ''1''" "digitChar 2 = CHR ''2''"
      "digitChar 5 = CHR ''5''" "digitChar 7 = CHR ''7''" "digitChar 9 = CHR ''9''"
      by code_simp+
    show "decimal 2097152 = ''2097152''" "decimal 0 = ''0''"
      by (simp_all add: decimal.simps dc)
  qed
  have h: "getResponseHeaders example_library example_fs ?png ''/srv/www/logo.png'' ?big
             = Inr (?hs, False)"
    by (simp add: getResponseHeaders_def getETag_def example_library_def example_request_def
        Let_def e1 toLowerCase_png dec)
  have h': "getResponseHeaders example_library example_fs ?txt ''/srv/www/a.txt'' ?empty
              = Inr (?hs', False)"
    by code_simp
  have rp: "getRequestPath example_config example_library ?txt = Inr (Some ''/srv/www/a.txt'')"
    by code_simp
  have st: "fs_stat example_fs ''/srv/www/a.txt'' = Inr ?empty" by (simp add: example_fs_def)
  have nd: "\<not> isDirectory ?empty" by simp
  have nr: "headers ?txt ''range'' = None" by (simp add: example_request_def)
  have sf: "fst (sendFileResponse ?txt ''/srv/www/a.txt'' ?hs' ?empty)
              = \<lparr>status = 200, head = ?hs' @ [(''Content-Encoding'', ''gzip'')],
                 body = PipeGzip (ReadStream ''/srv/www/a.txt'' None)\<rparr>"
    by code_simp
  have ae: "headers ?js ''accept-encoding'' = Some ''gzip''"
    by (simp add: example_request_def)
  have inc: "includes_str ''gzip'' ''gzip''" by simp
  have g: "isGzip (body (handleRequest example_config example_library example_fs ?txt))"
    by (simp only: b isGzip.simps)
  note gz = compression_gating [where cfg = example_config and lib = example_library
        and fs = example_fs and req = ?txt, THEN conjunct1, THEN mp, OF disjI1 [OF g]]
  note png = compression_gating [where lib = example_library and fs = example_fs and req = ?png
        and filePath = "''/srv/www/logo.png''" and st = ?big and hs = ?hs and cached = False,
        THEN conjunct2, THEN conjunct1, THEN mp, OF conjI [OF e1 h], THEN conjunct1]
  note js = compression_gating [where req = ?js and filePath = "''/srv/www/app.js''"
        and st = ?small and hs = "[]" and ae = "''gzip''",
        THEN conjunct2, THEN conjunct2, THEN conjunct1, THEN mp,
        OF conjI [OF e2 conjI [OF ae inc]], THEN conjunct1]
  note full = compression_gating [where cfg = example_config and lib = example_library
        and fs = example_fs and req = ?txt and filePath = "''/srv/www/a.txt''" and st = ?empty
        and hs = ?hs',
        THEN conjunct2, THEN conjunct2, THEN conjunct2, THEN mp,
        OF conjI [OF rp conjI [OF st conjI [OF nd conjI [OF h' nr]]]]]
  have full': "handleRequest example_config example_library example_fs ?txt
      = \<lparr>status = 200, head = ?hs' @ [(''Content-Encoding'', ''gzip'')],
         body = PipeGzip (ReadStream ''/srv/www/a.txt'' None)\<rparr>"
    using full sf by (rule trans)
  have full'': "handleRequest example_config example_library example_fs ?txt
      = \<lparr>status = 200,
         head = [(''Content-Type'', ''text/plain''),
                 (''ETag'', ''d41d8cd98f00b204e9800998ecf8427e''),
                 (''Last-Modified'', ''Thu, 01 Jan 1970 00:00:00 GMT''),
                 (''Cache-Control'', ''public, max-age=31536000, immutable''),
                 (''Accept-Ranges'', ''bytes''),
                 (''Content-Encoding'', ''gzip'')],
         body = PipeGzip (ReadStream ''/srv/www/a.txt'' None)\<rparr>"
    using full' by (simp only: append.simps)
  show ?thesis
    by (rule conjI [OF gz conjI [OF e1 conjI [OF png conjI [OF e2 conjI [OF js full'']]]]])
qed

text \<open>
  C10. A request without an \<open>Accept-Encoding\<close> header is never compressed. With the
  header, gzip is accepted exactly when the value contains \<open>gzip\<close> somewhere, and
  compression then depends on the extension alone; so it is with the values
  \<open>gzip;q=0\<close> and \<open>x-gzip\<close>.
\<close>

theorem gzip_acceptance_substring:
  "(headers req ''accept-encoding'' = None \<longrightarrow> \<not> shouldCompress req filePath)
   \<and> (headers req ''accept-encoding'' = Some ae \<longrightarrow>
        shouldCompress req filePath =
          ((\<exists>before after. ae = before @ ''gzip'' @ after)
           \<and> toLowerCase (path_extname filePath) \<in> set compressibleExtensions))
   \<and> (headers req ''accept-encoding'' = Some ''gzip;q=0''
        \<or> headers req ''accept-encoding'' = Some ''x-gzip''
        \<longrightarrow> shouldCompress req filePath
             = (toLowerCase (path_extname filePath) \<in> set compressibleExtensions))"
  (is "(?A1 \<longrightarrow> ?B1) \<and> (?A2 \<longrightarrow> ?B2) \<and> (?A3 \<longrightarrow> ?B3)")
proof -
  have 1: "?A1 \<longrightarrow> ?B1" by (simp add: shouldCompress_def)
  have 2: "?A2 \<longrightarrow> ?B2" by (simp add: shouldCompress_iff includes_str_sublist sublist_def)
  have 3: "?A3 \<longrightarrow> ?B3" by (auto simp: shouldCompress_def)
  show ?thesis by (rule conjI [OF 1 conjI [OF 2 3]])
qed

theorem gzip_acceptance_substring_witness:
  "\<not> shouldCompress (example_request ''/app.js'' []) ''/srv/www/app.js''
   \<and> shouldCompress (example_request ''/app.js'' [(''accept-encoding'', ''gzip;q=0'')])
        ''/srv/www/app.js''
   \<and> shouldCompress (example_request ''/app.js'' [(''accept-encoding'', ''x-gzip'')])
        ''/srv/www/app.js''
   \<and> shouldCompress (example_request ''/app.js'' [(''accept-encoding'', ''br, gzip'')])
        ''/srv/www/app.js''"
proof -
  let ?none = "example_request ''/app.js'' []"
  let ?q0 = "example_request ''/app.js'' [(''accept-encoding'', ''gzip;q=0'')]"
  let ?x = "example_request ''/app.js'' [(''accept-encoding'', ''x-gzip'')]"
  let ?br = "example_request ''/app.js'' [(''accept-encoding'', ''br, gzip'')]"
  have ext: "toLowerCase (path_extname ''/srv/www/app.js'') \<in> set compressibleExtensions"
    by code_simp
  have h0: "headers ?none ''accept-encoding'' = None" by (simp add: example_request_def)
  have h1: "headers ?q0 ''accept-encoding'' = Some ''gzip;q=0''"
    by (simp add: example_request_def)
  have h2: "headers ?x ''accept-encoding'' = Some ''x-gzip''" by (simp add: example_request_def)
  have h3: "headers ?br ''accept-encoding'' = Some ''br, gzip''"
    by (simp add: example_request_def)
  have sub: "\<exists>before after. ''br, gzip'' = before @ ''gzip'' @ after"
    by (rule exI [of _ "''br, ''"], rule exI [of _ "[]"]) simp
  note a = gzip_acceptance_substring [where req = ?none and filePath = "''/srv/www/app.js''",
      THEN conjunct1, THEN mp, OF h0]
  note b = gzip_acceptance_substring [where req = ?q0 and filePath = "''/srv/www/app.js''",
      THEN conjunct2, THEN conjunct2, THEN mp, OF disjI1 [OF h1]]
  note c = gzip_acceptance_substring [where req = ?x and filePath = "''/srv/www/app.js''",
      THEN conjunct2, THEN conjunct2, THEN mp, OF disjI2 [OF h2]]
  note d = gzip_acceptance_substring [where req = ?br and filePath = "''/srv/www/app.js''"
      and ae = "''br, gzip''", THEN conjunct2, THEN conjunct1, THEN mp, OF h3]
  from a b c d ext sub show ?thesis by simp
qed

section \<open>Fingerprints\<close>

text \<open>
  Against C8 as it is stated: no digest of 32 hexadecimal digits, as \<open>digest('hex')\<close>
  of MD5 is, makes the fingerprint of files under 1 MiB change exactly when the bytes
  change. Two different contents of 17 bytes have the same fingerprint.
\<close>

theorem fingerprint_collision:
  "\<not> (\<exists>lib. (\<forall>x. length (md5_hex lib x) = 32 \<and> set (md5_hex lib x) \<subseteq> hexDigits)
        \<and> (\<forall>fs fs' p st c c'.
              size_st st < 1024 * 1024 \<and> fs_readFile fs p = Inr c \<and> fs_readFile fs' p = Inr c'
              \<longrightarrow> (getETag lib fs p st \<noteq> getETag lib fs' p st) = (c \<noteq> c')))"
proof
  assume "\<exists>lib. (\<forall>x. length (md5_hex lib x) = 32 \<and> set (md5_hex lib x) \<subseteq> hexDigits)
        \<and> (\<forall>fs fs' p st c c'.
              size_st st < 1024 * 1024 \<and> fs_readFile fs p = Inr c \<and> fs_readFile fs' p = Inr c'
              \<longrightarrow> (getETag lib fs p st \<noteq> getETag lib fs' p st) = (c \<noteq> c'))"
  then obtain lib where
    fmt: "\<And>x. length (md5_hex lib x) = 32 \<and> set (md5_hex lib x) \<subseteq> hexDigits"
    and iff: "\<And>fs fs' p st c c'.
              size_st st < 1024 * 1024 \<and> fs_readFile fs p = Inr c \<and> fs_readFile fs' p = Inr c'
              \<Longrightarrow> (getETag lib fs p st \<noteq> getETag lib fs' p st) = (c \<noteq> c')"
    by blast
  from digest_not_injective [of "md5_hex lib", OF fmt] obtain c c' where
    cc: "c \<noteq> c'" "md5_hex lib c = md5_hex lib c'" by blast
  let ?fs = "\<lambda>x. \<lparr>fs_stat = (\<lambda>p. Inl (SystemError ''ENOENT'')), fs_readFile = (\<lambda>p. Inr x),
                   fs_readdir = (\<lambda>p. Inl (SystemError ''ENOENT''))\<rparr>"
  let ?st = "\<lparr>size_st = 17, mtime = 0, isDirectory = False\<rparr>"
  from iff [of ?st "?fs c" "[]" c "?fs c'" c'] cc
  show False by (simp add: getETag_def)
qed

text \<open>
  C8, amended. For a file under 1 MiB the fingerprint is the digest of the whole
  content: the same bytes give the same fingerprint whatever the modification time,
  and two contents have the same fingerprint exactly when they have the same digest
  (so the fingerprint changes only when the bytes change, and whenever the new bytes
  have another digest). For a file of 1 MiB or more it is the digest of the size, a
  dash and the modification time in epoch milliseconds.
\<close>

theorem getETag_fingerprint:
  "(size_st st < 1024 * 1024 \<and> fs_readFile fs p = Inr c
      \<longrightarrow> getETag lib fs p st = Inr (md5_hex lib c))
   \<and> (size_st st < 1024 * 1024 \<and> size_st st' < 1024 * 1024
        \<and> fs_readFile fs p = Inr c \<and> fs_readFile fs' p' = Inr c'
      \<longrightarrow> (c = c' \<longrightarrow> getETag lib fs p st = getETag lib fs' p' st')
          \<and> (getETag lib fs p st = getETag lib fs' p' st') = (md5_hex lib c = md5_hex lib c'))
   \<and> (1024 * 1024 \<le> size_st st
      \<longrightarrow> getETag lib fs p st
            = Inr (md5_hex lib (js_String (Num (size_st st)) @ ''-'' @ js_String (Num (mtime st)))))"
  by (auto simp: getETag_def)

theorem getETag_fingerprint_witness:
  "getETag example_library example_fs ''/srv/www/a.txt''
      \<lparr>size_st = 0, mtime = 0, isDirectory = False\<rparr>
     = Inr ''d41d8cd98f00b204e9800998ecf8427e''
   \<and> getETag example_library example_fs ''/srv/www/a.txt''
       \<lparr>size_st = 0, mtime = 0, isDirectory = False\<rparr>
     = getETag example_library example_fs ''/srv/www/a.txt''
         \<lparr>size_st = 0, mtime = 86400000, isDirectory = False\<rparr>
   \<and> getETag example_library example_fs ''/srv/www/big.iso''
       \<lparr>size_st = 1048576, mtime = 1000, isDirectory = False\<rparr>
     = Inr ''854f7a25b9867ec8be17843d7f5ebc20''"
proof -
  let ?st = "\<lparr>size_st = 0, mtime = 0, isDirectory = False\<rparr>"
  let ?st' = "\<lparr>size_st = 0, mtime = 86400000, isDirectory = False\<rparr>"
  let ?big = "\<lparr>size_st = 1048576, mtime = 1000, isDirectory = False\<rparr>"
  have s: "size_st ?st < 1024 * 1024" "size_st ?st' < 1024 * 1024" by simp_all
  have b: "1024 * 1024 \<le> size_st ?big" by simp
  have rd: "fs_readFile example_fs ''/srv/www/a.txt'' = Inr []" by (simp add: example_fs_def)
  have dec: "js_String (Num (size_st ?big)) @ ''-'' @ js_String (Num (mtime ?big))
               = ''1048576-1000''"
  proof -
    have dc: "digitChar 0 = CHR ''0''" "digitChar (Suc 0) = CHR ''1''" "digitChar 4 = CHR ''4''"
      "digitChar 5 = CHR ''5''" "digitChar 6 = CHR ''6''" "digitChar 7 = CHR ''7''"
      "digitChar 8 = CHR ''8''"
      by code_simp+
    show ?thesis by (simp add: decimal.simps dc)
  qed
  note T = getETag_fingerprint [where lib = example_library and fs = example_fs
      and fs' = example_fs and p = "''/srv/www/a.txt''" and p' = "''/srv/www/a.txt''"
      and st = ?st and st' = ?st' and c = "[]" and c' = "[]"]
  note T1 = T [THEN conjunct1, THEN mp, OF conjI [OF s(1) rd]]
  note T2 = T [THEN conjunct2, THEN conjunct1, THEN mp,
      OF conjI [OF s(1) conjI [OF s(2) conjI [OF rd rd]]], THEN conjunct1, THEN mp, OF refl]
  note T3 = getETag_fingerprint [where lib = example_library and fs = example_fs
      and p = "''/srv/www/big.iso''" and st = ?big, THEN conjunct2, THEN conjunct2, THEN mp, OF b]
  from T1 T2 T3 dec show ?thesis by (simp add: example_library_def)
qed

section \<open>Failures of the metadata probe\<close>

text \<open>
  Against C9 as it is stated: the directory \<open>d\<close> of the sample deployment has no index
  file, the probe of \<open>d/index.html\<close> finds nothing, and the response is the listing
  with status 200, not 404.
\<close>

theorem index_probe_not_found_lists_directory:
  "getRequestPath example_config example_library (example_request ''/d'' [])
     = Inr (Some ''/srv/www/d'')
   \<and> getPathStats example_fs ''/srv/www/d/index.html'' = Inr None
   \<and> status (handleRequest example_config example_library example_fs (example_request ''/d'' []))
       = 200"
  by code_simp

text \<open>
  C9, amended. For every metadata probe, not-found (\<open>ENOENT\<close>) is not an error:
  \<open>getPathStats\<close> returns \<open>null\<close>, and every other failure is thrown on. Not-found for
  the requested path is answered with 404; not-found for the index file of a requested
  directory is answered with the directory listing (200), or with 403 when the
  directory cannot be listed. Every other failure of either probe reaches the handler's
  \<open>catch\<close> and is answered with 500.
\<close>

theorem stat_failure_responses:
  "(fs_stat fs p = Inl e \<and> err_code e = Some ''ENOENT'' \<longrightarrow> getPathStats fs p = Inr None)
   \<and> (fs_stat fs p = Inl e \<and> err_code e \<noteq> Some ''ENOENT'' \<longrightarrow> getPathStats fs p = Inl e)
   \<and> (getRequestPath cfg lib req = Inr (Some p) \<and> fs_stat fs p = Inl e \<longrightarrow>
        handleRequest cfg lib fs req =
          (if err_code e = Some ''ENOENT'' then sendErrorResponse 404 ''404 Not Found''
           else sendErrorResponse 500 ''500 Internal Server Error''))
   \<and> (getRequestPath cfg lib req = Inr (Some p) \<and> fs_stat fs p = Inr d \<and> isDirectory d
        \<and> fs_stat fs (path_join [p, index cfg]) = Inl e \<longrightarrow>
        (if err_code e = Some ''ENOENT''
         then status (handleRequest cfg lib fs req)
                = (case fs_readdir fs p of Inl _ \<Rightarrow> 403 | Inr _ \<Rightarrow> 200)
         else handleRequest cfg lib fs req
                = sendErrorResponse 500 ''500 Internal Server Error''))"
  (is "(?A1 \<longrightarrow> ?B1) \<and> (?A2 \<longrightarrow> ?B2) \<and> (?A3 \<longrightarrow> ?B3) \<and> (?A4 \<longrightarrow> ?B4)")
proof -
  have 1: "?A1 \<longrightarrow> ?B1" by (simp add: getPathStats_def)
  have 2: "?A2 \<longrightarrow> ?B2" by (simp add: getPathStats_def)
  have 3: "?A3 \<longrightarrow> ?B3" using handleRequest_stat_error by blast
  have 4: "?A4 \<longrightarrow> ?B4"
  proof
    assume a: ?A4
    show ?B4
      using a handleRequest_index_absent [of cfg lib req p fs d e]
        handleRequest_index_error [of cfg lib req p fs d e]
      by (simp split: if_splits)
  qed
  show ?thesis by (rule conjI [OF 1 conjI [OF 2 conjI [OF 3 4]]])
qed

text \<open>
  On the sample deployment: a missing path (404), a path whose metadata cannot be read
  (500), a directory without an index file (200) and a directory whose index file
  cannot be accessed (500).
\<close>

theorem stat_failure_responses_witness:
  "getPathStats example_fs ''/srv/www/nope'' = Inr None
   \<and> getPathStats example_fs ''/srv/www/secret'' = Inl (SystemError ''EACCES'')
   \<and> status (handleRequest example_config example_library example_fs
        (example_request ''/nope'' [])) = 404
   \<and> status (handleRequest example_config example_library example_fs
        (example_request ''/secret'' [])) = 500
   \<and> status (handleRequest example_config example_library example_fs
        (example_request ''/d'' [])) = 200
   \<and> status (handleRequest example_config example_library example_fs
        (example_request ''/private'' [])) = 500"
proof -
  let ?dir = "\<lparr>size_st = 4096, mtime = 0, isDirectory = True\<rparr>"
  have s1: "fs_stat example_fs ''/srv/www/nope'' = Inl (SystemError ''ENOENT'')"
    and s2: "fs_stat example_fs ''/srv/www/secret'' = Inl (SystemError ''EACCES'')"
    and s3: "fs_stat example_fs ''/srv/www/d'' = Inr ?dir"
    and s4: "fs_stat example_fs ''/srv/www/private'' = Inr ?dir"
    and s5: "fs_stat example_fs ''/srv/www/d/index.html'' = Inl (SystemError ''ENOENT'')"
    and s6: "fs_stat example_fs ''/srv/www/private/index.html'' = Inl (SystemError ''EACCES'')"
    and rd: "fs_readdir example_fs ''/srv/www/d'' = Inr [''x.txt'']"
    by (simp_all add: example_fs_def)
  have j1: "path_join [''/srv/www/d'', index example_config] = ''/srv/www/d/index.html''"
    and j2: "path_join [''/srv/www/private'', index example_config]
               = ''/srv/www/private/index.html''"
    by code_simp+
  have p1: "getRequestPath example_config example_library (example_request ''/nope'' [])
              = Inr (Some ''/srv/www/nope'')"
    and p2: "getRequestPath example_config example_library (example_request ''/secret'' [])
              = Inr (Some ''/srv/www/secret'')"
    and p3: "getRequestPath example_config example_library (example_request ''/d'' [])
              = Inr (Some ''/srv/www/d'')"
    and p4: "getRequestPath example_config example_library (example_request ''/private'' [])
              = Inr (Some ''/srv/www/private'')"
    by code_simp+
  have e1: "err_code (SystemError ''ENOENT'') = Some ''ENOENT''"
    and e2: "err_code (SystemError ''EACCES'') \<noteq> Some ''ENOENT''" by simp_all
  note a = stat_failure_responses [where fs = example_fs and p = "''/srv/www/nope''"
      and e = "SystemError ''ENOENT''", THEN conjunct1, THEN mp, OF conjI [OF s1 e1]]
  note b = stat_failure_responses [where fs = example_fs and p = "''/srv/www/secret''"
      and e = "SystemError ''EACCES''", THEN conjunct2, THEN conjunct1, THEN mp,
      OF conjI [OF s2 e2]]
  note c = stat_failure_responses [where fs = example_fs and p = "''/srv/www/nope''"
      and e = "SystemError ''ENOENT''" and cfg = example_config and lib = example_library
      and req = "example_request ''/nope'' []",
      THEN conjunct2, THEN conjunct2, THEN conjunct1, THEN mp, OF conjI [OF p1 s1]]
  note d = stat_failure_responses [where fs = example_fs and p = "''/srv/www/secret''"
      and e = "SystemError ''EACCES''" and cfg = example_config and lib = example_library
      and req = "example_request ''/secret'' []",
      THEN conjunct2, THEN conjunct2, THEN conjunct1, THEN mp, OF conjI [OF p2 s2]]
  note e = stat_failure_responses [where fs = example_fs and p = "''/srv/www/d''"
      and e = "SystemError ''ENOENT''" and cfg = example_config and lib = example_library
      and req = "example_request ''/d'' []" and d = ?dir,
      THEN conjunct2, THEN conjunct2, THEN conjunct2, THEN mp, unfolded j1,
      OF conjI [OF p3 conjI [OF s3 conjI [OF _ s5]]]]
  note f = stat_failure_responses [where fs = example_fs and p = "''/srv/www/private''"
      and e = "SystemError ''EACCES''" and cfg = example_config and lib = example_library
      and req = "example_request ''/private'' []" and d = ?dir,
      THEN conjunct2, THEN conjunct2, THEN conjunct2, THEN mp, unfolded j2,
      OF conjI [OF p4 conjI [OF s4 conjI [OF _ s6]]]]
  from a b c d e f rd show ?thesis by (simp add: sendErrorResponse_def)
qed

end
